theory Spec2Isabelle
  imports Complex_Main "HOL-Library.Word"
begin

section \<open>The popup manager of the modal cookbook page\<close>

text \<open>
  \<^verbatim>\<open>popup-manager.tsx\<close>, as listed in \<^verbatim>\<open>cookbook/modal/index.mdx\<close>:
  \<^verbatim>\<open>
  const modal = useSignal<{ Component: Component<any>; props: any }>();
  useContextProvider(PopupManagerContext, {
    show: $(<T extends {}>(component: Component<T>, props: T) => {
      modal.value = { Component: component as any, props };
    }),
    hide: $(() => {
      modal.value = undefined;
    }),
  });
  return (
    <>
      <Slot />
      {
        modal.value && (
          <div class="modal">
            <modal.value.Component {...modal.value.props} />
          </div>
        )
      }
    </>
  );
  \<close>
  The component reference and the property bag are opaque to the manager, so they are the
  type parameters \<open>'c\<close> and \<open>'p\<close>. The value held by the signal is the object
  \<^verbatim>\<open>{ Component, props }\<close>.
\<close>

record ('c, 'p) popup =
  Component :: 'c
  props :: 'p

text \<open>
  \<^verbatim>\<open>modal.value\<close>: the signal is created without an initial value, so it holds either
  \<^verbatim>\<open>undefined\<close> (\<open>None\<close>) or one popup object.
\<close>

type_synonym ('c, 'p) modal = "('c, 'p) popup option"

definition useSignal :: "('c, 'p) modal" where
  "useSignal = None"

text \<open>
  The two operations published through the context. Each is a single assignment to
  \<^verbatim>\<open>modal.value\<close>; the model takes the signal's old value and returns the new one.
  (\<open>show\<close> is a reserved word of the proof language, hence the suffix.)
\<close>

definition show_popup :: "'c \<Rightarrow> 'p \<Rightarrow> ('c, 'p) modal \<Rightarrow> ('c, 'p) modal" where
  "show_popup component ps modal = Some \<lparr>Component = component, props = ps\<rparr>"

definition hide :: "('c, 'p) modal \<Rightarrow> ('c, 'p) modal" where
  "hide modal = None"

text \<open>
  The JSX tree returned by the render function: a fragment, an element with its
  \<^verbatim>\<open>class\<close> attribute, the \<^verbatim>\<open><Slot />\<close> placeholder, a component invoked with a property
  bag, and the value \<^verbatim>\<open>undefined\<close> that the \<^verbatim>\<open>&&\<close> leaves in the child position when the
  signal is empty (it renders nothing).
\<close>

datatype ('c, 'p) jsx =
    Fragment "('c, 'p) jsx list"
  | Element string string "('c, 'p) jsx list"
  | Slot
  | Invoke 'c 'p
  | Undefined

text \<open>
  The render function of \<^verbatim>\<open>PopupManager\<close>. A popup object is truthy, so
  \<^verbatim>\<open>modal.value && (...)\<close> is the overlay exactly when the signal holds a popup. The spread
  \<^verbatim>\<open>{...modal.value.props}\<close> passes the entries of the stored bag.
\<close>

definition PopupManager :: "('c, 'p) modal \<Rightarrow> ('c, 'p) jsx" where
  "PopupManager modal =
     Fragment
       [Slot,
        (case modal of
           None \<Rightarrow> Undefined
         | Some m \<Rightarrow> Element ''div'' ''modal'' [Invoke (Component m) (props m)])]"

text \<open>Every component invocation of a tree, in document order.\<close>

fun instances :: "('c, 'p) jsx \<Rightarrow> ('c \<times> 'p) list" where
  "instances (Fragment ts) = concat (map instances ts)"
| "instances (Element tag cls ts) = concat (map instances ts)"
| "instances Slot = []"
| "instances (Invoke c p) = [(c, p)]"
| "instances Undefined = []"

text \<open>A sequence of calls made by consumers of the context, applied in order.\<close>

datatype ('c, 'p) call = Show 'c 'p | Hide

fun perform :: "('c, 'p) call \<Rightarrow> ('c, 'p) modal \<Rightarrow> ('c, 'p) modal" where
  "perform (Show c p) modal = show_popup c p modal"
| "perform Hide modal = hide modal"

fun perform_all :: "('c, 'p) call list \<Rightarrow> ('c, 'p) modal \<Rightarrow> ('c, 'p) modal" where
  "perform_all [] modal = modal"
| "perform_all (k # ks) modal = perform_all ks (perform k modal)"

section \<open>The joke command of the CLI\<close>

text \<open>
  \<^verbatim>\<open>cli/joke/run-joke-command.ts\<close>:
  \<^verbatim>\<open>
  export async function runJokeCommand() {
    const [setup, punchline] = getRandomJoke();
    note(magenta(`${setup!.trim()}\n${punchline!.trim()}`), <glyph>);
  }
  \<close>
  where \<^verbatim>\<open><glyph>\<close> is the string literal holding the single code point U+1F648.
\<close>

subsection \<open>Strings\<close>

text \<open>
  A JavaScript string is a sequence of 16-bit code units. \<open>str\<close> embeds a literal whose
  characters are below U+0100, one code unit per character.
\<close>

type_synonym jsstring = "16 word list"

definition str :: "string \<Rightarrow> jsstring" where
  "str s = map of_char s"

text \<open>
  \<^verbatim>\<open>String.prototype.trim\<close> removes, at both ends, the code units that the language
  classes as white space (TAB, VT, FF, ZWNBSP and the space separators) or as line
  terminators (LF, CR, LS, PS).
\<close>

definition isWhiteSpace :: "16 word \<Rightarrow> bool" where
  "isWhiteSpace c \<longleftrightarrow>
     c = 0x0009 \<or> c = 0x000B \<or> c = 0x000C \<or> c = 0xFEFF \<or>
     c = 0x0020 \<or> c = 0x00A0 \<or> c = 0x1680 \<or> (0x2000 \<le> c \<and> c \<le> 0x200A) \<or>
     c = 0x202F \<or> c = 0x205F \<or> c = 0x3000 \<or>
     c = 0x000A \<or> c = 0x000D \<or> c = 0x2028 \<or> c = 0x2029"

definition trimStart :: "jsstring \<Rightarrow> jsstring" where
  "trimStart s = dropWhile isWhiteSpace s"

definition trimEnd :: "jsstring \<Rightarrow> jsstring" where
  "trimEnd s = rev (dropWhile isWhiteSpace (rev s))"

definition trim :: "jsstring \<Rightarrow> jsstring" where
  "trim s = trimEnd (trimStart s)"

text \<open>
  What it means for \<open>t\<close> to be \<open>s\<close> without its leading and trailing white space:
  \<open>s\<close> is \<open>t\<close> between two runs of white space, and \<open>t\<close> neither starts nor ends with
  white space.
\<close>

definition stripped :: "jsstring \<Rightarrow> jsstring \<Rightarrow> bool" where
  "stripped s t \<longleftrightarrow>
     (\<exists>a b. s = a @ t @ b \<and> list_all isWhiteSpace a \<and> list_all isWhiteSpace b) \<and>
     (t \<noteq> [] \<longrightarrow> \<not> isWhiteSpace (hd t) \<and> \<not> isWhiteSpace (last t))"

subsection \<open>The command\<close>

text \<open>
  Reading position \<open>i\<close> of an array gives \<^verbatim>\<open>undefined\<close> (\<open>None\<close>) past its end; the
  destructuring \<^verbatim>\<open>[setup, punchline]\<close> reads positions 0 and 1.
\<close>

definition element :: "'a list \<Rightarrow> nat \<Rightarrow> 'a option" where
  "element xs i = (if i < length xs then Some (xs ! i) else None)"

text \<open>Calling \<^verbatim>\<open>.trim()\<close> on \<^verbatim>\<open>undefined\<close> throws; the non-null assertion is erased.\<close>

datatype error = TypeError

text \<open>
  \<^verbatim>\<open>magenta\<close> is imported from the package \<^verbatim>\<open>kleur/colors\<close> and colours a string; it
  is a parameter of the command.

  Modelled from the spec: \<^verbatim>\<open>note\<close> is imported from \<^verbatim>\<open>cli/utils/utils\<close>, which is not
  among the sources. The spec: the command "writes two lines of text plus a fixed
  decorative glyph to standard output". The terminal is the list of the \<^verbatim>\<open>note\<close> calls
  made so far, each with its two arguments, the text and the title. (\<open>note\<close> is a
  reserved word of the proof language, hence the suffix.)
\<close>

record note_call =
  message :: jsstring
  title :: jsstring

type_synonym terminal = "note_call list"

definition note_cli :: "jsstring \<Rightarrow> jsstring \<Rightarrow> terminal \<Rightarrow> terminal" where
  "note_cli msg ttl out = out @ [\<lparr>message = msg, title = ttl\<rparr>]"

text \<open>The string literal of the second argument: U+1F648 as its surrogate pair.\<close>

definition glyph :: jsstring where
  "glyph = [0xD83D, 0xDE48]"

text \<open>
  \<open>joke\<close> is the array that the call \<^verbatim>\<open>getRandomJoke()\<close> returned. The template literal
  evaluates \<^verbatim>\<open>setup!.trim()\<close> first, then \<^verbatim>\<open>punchline!.trim()\<close>, and joins them with a
  line feed. A thrown error rejects the promise of the \<^verbatim>\<open>async\<close> function (\<open>Inl\<close>) and
  nothing is written.
\<close>

definition runJokeCommand ::
  "(jsstring \<Rightarrow> jsstring) \<Rightarrow> jsstring list \<Rightarrow> terminal \<Rightarrow> error + terminal" where
  "runJokeCommand magenta joke out =
     (case element joke 0 of
        None \<Rightarrow> Inl TypeError
      | Some setup \<Rightarrow>
          (case element joke 1 of
             None \<Rightarrow> Inl TypeError
           | Some punchline \<Rightarrow>
               Inr (note_cli (magenta (trim setup @ [0x000A] @ trim punchline)) glyph out)))"

subsection \<open>The selector\<close>

text \<open>
  Modelled from the spec: \<^verbatim>\<open>getRandomJoke\<close> is imported from \<^verbatim>\<open>create-qwik/jokes\<close>, which
  is not among the sources. The spec: it "selects one entry uniformly at random from a
  fixed in-memory list and returns its two parts", with "no error conditions (list is
  non-empty by construction)". The random choice is the argument \<open>r\<close>: one of the
  positions of the list, each of them equally likely.
\<close>

definition getRandomJoke :: "'a list \<Rightarrow> nat \<Rightarrow> 'a" where
  "getRandomJoke jokes r = jokes ! r"

text \<open>
  Modelled from the spec: the equally likely outcomes of the random choice ("uniformly at
  random"), and the probability of getting \<open>e\<close> as the share of the outcomes that
  return it.
\<close>

definition draws :: "'a list \<Rightarrow> nat list" where
  "draws jokes = [0..<length jokes]"

definition probability :: "'a list \<Rightarrow> 'a \<Rightarrow> rat" where
  "probability jokes e =
     of_nat (length (filter (\<lambda>r. getRandomJoke jokes r = e) (draws jokes))) /
     of_nat (length (draws jokes))"

text \<open>The list of the end-to-end example, with its single entry.\<close>

definition chicken :: "jsstring list" where
  "chicken = [str ''Why did the chicken cross the road?'', str ''To get to the other side.'']"

definition chicken_jokes :: "jsstring list list" where
  "chicken_jokes = [chicken]"

section \<open>Properties of the popup manager\<close>

lemma instances_PopupManager:
  "instances (PopupManager modal) =
     (case modal of None \<Rightarrow> [] | Some m \<Rightarrow> [(Component m, props m)])"
  by (simp add: PopupManager_def split: option.split)

text \<open>
  C1. For every component \<open>C\<close> and property bag \<open>P\<close>, and whatever the signal held
  before, \<open>show(C, P)\<close> leaves the popup \<open>(C, P)\<close> in the signal; the tree rendered
  next is the slot followed by the overlay \<^verbatim>\<open><div class="modal">\<close> whose only child is
  \<open>C\<close> invoked with \<open>P\<close>, so the output holds exactly one component instance, that one.
\<close>

theorem show_renders_once:
  "show_popup C P modal = Some \<lparr>Component = C, props = P\<rparr> \<and>
   PopupManager (show_popup C P modal) =
     Fragment [Slot, Element ''div'' ''modal'' [Invoke C P]] \<and>
   instances (PopupManager (show_popup C P modal)) = [(C, P)]"
  by (simp add: show_popup_def PopupManager_def)

text \<open>
  C2. From every prior state, in particular right after a \<open>show(C, P)\<close>, \<open>hide()\<close>
  empties the signal, and the tree rendered next is the slot alone: it holds no component
  instance at all, hence none of a component shown before.
\<close>

theorem hide_renders_none:
  "hide modal = None \<and>
   hide (show_popup C P modal) = None \<and>
   PopupManager (hide modal) = Fragment [Slot, Undefined] \<and>
   instances (PopupManager (hide modal)) = [] \<and>
   instances (PopupManager (hide (show_popup C P modal))) = []"
  by (simp add: hide_def PopupManager_def)

text \<open>
  C3. \<open>hide()\<close> on an empty signal (the one \<^verbatim>\<open>useSignal\<close> creates, or any empty one)
  changes nothing, and from every state a second \<open>hide()\<close> gives what the first one
  gave. The operation has no failing branch: it is a total function of the state.
\<close>

theorem hide_idempotent:
  "hide useSignal = (useSignal :: ('c, 'p) modal) \<and>
   hide None = (None :: ('c, 'p) modal) \<and>
   hide (hide modal) = hide modal \<and>
   hide (hide modal) = None"
  by (simp add: hide_def useSignal_def)

text \<open>
  C4. With a popup \<open>(C, P)\<close> active, \<open>show(C', P')\<close> leaves exactly \<open>(C', P')\<close> in the
  signal: the state is the one that the same call gives on a fresh signal, and the
  rendered output holds the single instance \<open>(C', P')\<close>. Nothing is queued or stacked.
\<close>

theorem show_last_writer_wins:
  "show_popup C' P' (show_popup C P modal) = Some \<lparr>Component = C', props = P'\<rparr> \<and>
   show_popup C' P' (show_popup C P modal) = show_popup C' P' useSignal \<and>
   instances (PopupManager (show_popup C' P' (show_popup C P modal))) = [(C', P')]"
  by (simp add: show_popup_def PopupManager_def)

text \<open>
  C5. At most one popup is active at a time: in every state the rendered output holds at
  most one component instance, and it still does after \<open>show\<close>, after \<open>hide\<close> and
  after any sequence of the two.
\<close>

theorem at_most_one_popup:
  "length (instances (PopupManager modal)) \<le> 1 \<and>
   length (instances (PopupManager (show_popup C P modal))) \<le> 1 \<and>
   length (instances (PopupManager (hide modal))) \<le> 1 \<and>
   length (instances (PopupManager (perform_all ks modal))) \<le> 1"
  by (simp add: instances_PopupManager split: option.split)

section \<open>Properties of the joke selector\<close>

lemma getRandomJoke_nth: "getRandomJoke jokes = (!) jokes"
  by (simp add: fun_eq_iff getRandomJoke_def)

lemma outcomes: "map (getRandomJoke jokes) (draws jokes) = jokes"
  by (simp add: getRandomJoke_nth draws_def map_nth)

lemma favourable:
  "length (filter (\<lambda>r. getRandomJoke jokes r = e) (draws jokes)) = count_list jokes e"
proof -
  have flip: "(\<lambda>x. x = e) = (=) e"
    by auto
  have "length (filter (\<lambda>r. getRandomJoke jokes r = e) (draws jokes))
      = length (filter (\<lambda>x. x = e) (map (getRandomJoke jokes) (draws jokes)))"
    by (simp add: filter_map comp_def)
  also have "\<dots> = count_list jokes e"
    by (simp add: outcomes count_list_eq_length_filter flip)
  finally show ?thesis .
qed

lemma probability_eq:
  "probability jokes e = of_nat (count_list jokes e) / of_nat (length jokes)"
  by (simp add: probability_def favourable) (simp add: draws_def)

lemma count_list_distinct: "distinct xs \<Longrightarrow> x \<in> set xs \<Longrightarrow> count_list xs x = 1"
  by (induction xs) (auto simp: count_list_0_iff)

text \<open>
  C6. Every call of the selector returns an entry of the list: for N successive calls,
  one random position \<open>r\<close> of the list per call (the list \<open>rs\<close>, of length N), there are
  N results and each of them is an element of the joke list.
\<close>

theorem selector_draws_from_list:
  "\<forall>r\<in>set rs. r < length jokes \<Longrightarrow>
   length (map (getRandomJoke jokes) rs) = length rs \<and>
   set (map (getRandomJoke jokes) rs) \<subseteq> set jokes"
  by (auto simp: getRandomJoke_def)

theorem selector_draws_from_list_witness:
  "length (map (getRandomJoke [''a'', ''b'', ''c'']) [2, 0, 2]) = 3 \<and>
   map (getRandomJoke [''a'', ''b'', ''c'']) [2, 0, 2] = [''c'', ''a'', ''c''] \<and>
   set (map (getRandomJoke [''a'', ''b'', ''c'']) [2, 0, 2]) \<subseteq> set [''a'', ''b'', ''c'']"
proof -
  have h: "\<forall>r\<in>set [2, 0, 2]. r < length [''a'', ''b'', ''c'']"
    by simp
  show ?thesis
    using selector_draws_from_list [OF h] by (simp add: getRandomJoke_def)
qed

text \<open>
  C7. No entry is unreachable and the choice is uniform: for every entry \<open>e\<close> of the
  list some draw returns exactly \<open>e\<close>; over the equally likely draws the selector
  returns the entries of the list one for one, so every entry of the list carries the
  same share \<open>1 / length jokes\<close> of the draws (a value written several times in the list
  has that share once per occurrence), and the probability of every entry is positive.
\<close>

theorem selector_uniform:
  "e \<in> set jokes \<Longrightarrow>
     (\<exists>r \<in> set (draws jokes). getRandomJoke jokes r = e) \<and>
     map (getRandomJoke jokes) (draws jokes) = jokes \<and>
     probability jokes e = of_nat (count_list jokes e) / of_nat (length jokes) \<and>
     0 < probability jokes e \<and>
     (distinct jokes \<longrightarrow> probability jokes e = 1 / of_nat (length jokes))"
proof (intro conjI impI)
  assume e: "e \<in> set jokes"
  then obtain i where "i < length jokes" "jokes ! i = e"
    by (auto simp: in_set_conv_nth)
  then show "\<exists>r \<in> set (draws jokes). getRandomJoke jokes r = e"
    by (auto simp: draws_def getRandomJoke_def)
  show "map (getRandomJoke jokes) (draws jokes) = jokes"
    by (rule outcomes)
  show "probability jokes e = of_nat (count_list jokes e) / of_nat (length jokes)"
    by (rule probability_eq)
  from e have "0 < count_list jokes e"
    by (metis count_list_0_iff gr0I)
  moreover from e have "0 < length jokes"
    by (cases jokes) auto
  ultimately show "0 < probability jokes e"
    by (simp add: probability_eq)
  show "probability jokes e = 1 / of_nat (length jokes)" if "distinct jokes"
    using that e by (simp add: probability_eq count_list_distinct)
qed

theorem selector_uniform_witness:
  "''b'' \<in> set [''a'', ''b'', ''c''] \<and>
   getRandomJoke [''a'', ''b'', ''c''] 1 = ''b'' \<and>
   probability [''a'', ''b'', ''c''] ''b'' = 1 / 3"
proof -
  have h: "''b'' \<in> set [''a'', ''b'', ''c'']"
    by simp
  show ?thesis
    using selector_uniform [OF h] by (simp add: getRandomJoke_def)
qed

section \<open>Properties of trimming\<close>

lemma trimStart_split: "s = takeWhile isWhiteSpace s @ trimStart s"
  by (simp add: trimStart_def)

lemma trimEnd_split: "s = trimEnd s @ rev (takeWhile isWhiteSpace (rev s))"
proof -
  have "trimEnd s @ rev (takeWhile isWhiteSpace (rev s))
      = rev (takeWhile isWhiteSpace (rev s) @ dropWhile isWhiteSpace (rev s))"
    by (simp only: trimEnd_def rev_append)
  also have "\<dots> = s"
    by (simp only: takeWhile_dropWhile_id rev_rev_ident)
  finally show ?thesis
    by simp
qed

lemma trim_split:
  "s = takeWhile isWhiteSpace s @ trim s @ rev (takeWhile isWhiteSpace (rev (trimStart s)))"
  using trimStart_split [of s] trimEnd_split [of "trimStart s"]
  by (simp add: trim_def)

lemma all_takeWhile: "list_all P (takeWhile P xs)"
  by (induction xs) simp_all

lemma trim_last: "trim s \<noteq> [] \<Longrightarrow> \<not> isWhiteSpace (last (trim s))"
  by (simp add: trim_def trimEnd_def last_rev hd_dropWhile)

lemma hd_trimEnd: "trimEnd s \<noteq> [] \<Longrightarrow> hd (trimEnd s) = hd s"
proof -
  assume ne: "trimEnd s \<noteq> []"
  have "s = trimEnd s @ rev (takeWhile isWhiteSpace (rev s))"
    by (rule trimEnd_split)
  then have "hd s = hd (trimEnd s @ rev (takeWhile isWhiteSpace (rev s)))"
    by simp
  with ne show ?thesis
    by simp
qed

lemma trim_hd: "trim s \<noteq> [] \<Longrightarrow> \<not> isWhiteSpace (hd (trim s))"
proof -
  assume ne: "trim s \<noteq> []"
  then have "trimStart s \<noteq> []"
    by (auto simp: trim_def trimEnd_def)
  then have "\<not> isWhiteSpace (hd (trimStart s))"
    by (simp add: trimStart_def hd_dropWhile)
  moreover from ne have "hd (trim s) = hd (trimStart s)"
    by (simp add: trim_def hd_trimEnd)
  ultimately show ?thesis
    by simp
qed

lemma stripped_trim: "stripped s (trim s)"
  unfolding stripped_def
proof (intro conjI impI)
  show "\<exists>a b. s = a @ trim s @ b \<and> list_all isWhiteSpace a \<and> list_all isWhiteSpace b"
    using trim_split [of s]
    by (intro exI [of _ "takeWhile isWhiteSpace s"]
              exI [of _ "rev (takeWhile isWhiteSpace (rev (trimStart s)))"])
       (simp add: all_takeWhile)
  show "\<not> isWhiteSpace (hd (trim s))" if "trim s \<noteq> []"
    using that by (rule trim_hd)
  show "\<not> isWhiteSpace (last (trim s))" if "trim s \<noteq> []"
    using that by (rule trim_last)
qed

text \<open>The trimmed string is the only one that \<open>stripped\<close> admits.\<close>

lemma takeWhile_run:
  "list_all P a \<Longrightarrow> xs \<noteq> [] \<Longrightarrow> \<not> P (hd xs) \<Longrightarrow> takeWhile P (a @ xs) = a"
  by (induction a) (auto simp: neq_Nil_conv)

lemma stripped_all_white:
  assumes "stripped s t" "list_all isWhiteSpace s"
  shows "t = []"
proof (rule ccontr)
  assume ne: "t \<noteq> []"
  from assms(1) obtain a b where s: "s = a @ t @ b"
    by (auto simp: stripped_def)
  from ne have "hd t \<in> set s"
    by (simp add: s)
  with assms(2) have "isWhiteSpace (hd t)"
    by (simp add: list_all_iff)
  with assms(1) ne show False
    by (simp add: stripped_def)
qed

lemma stripped_unique:
  assumes t: "stripped s t" and u: "stripped s u"
  shows "t = u"
proof (cases "t = [] \<or> u = []")
  case True
  from t obtain a b where ab: "s = a @ t @ b" "list_all isWhiteSpace a" "list_all isWhiteSpace b"
    by (auto simp: stripped_def)
  from u obtain c d where cd: "s = c @ u @ d" "list_all isWhiteSpace c" "list_all isWhiteSpace d"
    by (auto simp: stripped_def)
  from True show ?thesis
  proof
    assume "t = []"
    with ab have "list_all isWhiteSpace s" by simp
    with u have "u = []" by (rule stripped_all_white)
    with \<open>t = []\<close> show ?thesis by simp
  next
    assume "u = []"
    with cd have "list_all isWhiteSpace s" by simp
    with t have "t = []" by (rule stripped_all_white)
    with \<open>u = []\<close> show ?thesis by simp
  qed
next
  case False
  then have ne: "t \<noteq> []" "u \<noteq> []" by simp_all
  from t obtain a b where ab: "s = a @ t @ b" "list_all isWhiteSpace a" "list_all isWhiteSpace b"
    by (auto simp: stripped_def)
  from u obtain c d where cd: "s = c @ u @ d" "list_all isWhiteSpace c" "list_all isWhiteSpace d"
    by (auto simp: stripped_def)
  from t u ne have ends: "\<not> isWhiteSpace (hd t)" "\<not> isWhiteSpace (last t)"
      "\<not> isWhiteSpace (hd u)" "\<not> isWhiteSpace (last u)"
    by (simp_all add: stripped_def)
  have "takeWhile isWhiteSpace (a @ (t @ b)) = a"
    using ab(2) ne(1) ends(1) by (intro takeWhile_run) simp_all
  moreover have "takeWhile isWhiteSpace (c @ (u @ d)) = c"
    using cd(2) ne(2) ends(3) by (intro takeWhile_run) simp_all
  ultimately have "a = c"
    using ab(1) cd(1) by simp
  with ab(1) cd(1) have tb: "t @ b = u @ d"
    by simp
  have "takeWhile isWhiteSpace (rev b @ rev t) = rev b"
    using ab(3) ne(1) ends(2) by (intro takeWhile_run) (simp_all add: hd_rev)
  moreover have "takeWhile isWhiteSpace (rev d @ rev u) = rev d"
    using cd(3) ne(2) ends(4) by (intro takeWhile_run) (simp_all add: hd_rev)
  moreover from tb have "rev b @ rev t = rev d @ rev u"
    by (metis rev_append)
  ultimately have "b = d"
    by simp
  with tb show ?thesis
    by simp
qed

lemma stripped_iff: "stripped s t \<longleftrightarrow> t = trim s"
  using stripped_unique [of s t "trim s"] stripped_trim [of s] by auto

section \<open>Properties of the joke command\<close>

lemma runJokeCommand_Inr:
  "runJokeCommand magenta (setup # punchline # rest) out =
     Inr (out @ [\<lparr>message = magenta (trim setup @ [0x000A] @ trim punchline), title = glyph\<rparr>])"
  by (simp add: runJokeCommand_def element_def note_cli_def)

text \<open>An array with fewer than two parts is the only input on which the command throws.\<close>

lemma runJokeCommand_Inl:
  "length joke < 2 \<Longrightarrow> runJokeCommand magenta joke out = Inl TypeError"
  by (cases joke; cases "tl joke") (auto simp: runJokeCommand_def element_def)

lemma trim_chicken:
  "trim (str ''Why did the chicken cross the road?'') = str ''Why did the chicken cross the road?''"
  "trim (str ''To get to the other side.'') = str ''To get to the other side.''"
  by (simp_all add: trim_def trimStart_def trimEnd_def str_def isWhiteSpace_def)

text \<open>
  C8. With the joke list holding the single entry ("Why did the chicken cross the road?",
  "To get to the other side."), every draw makes the selector return that pair, and the
  command writes one note whose text is the first string, a line feed and the second
  string (passed through the colouring function), under the title that is the glyph
  U+1F648.
\<close>

theorem chicken_end_to_end:
  "r < length chicken_jokes \<Longrightarrow>
     getRandomJoke chicken_jokes r =
       [str ''Why did the chicken cross the road?'', str ''To get to the other side.''] \<and>
     runJokeCommand magenta (getRandomJoke chicken_jokes r) out =
       Inr (out @
         [\<lparr>message = magenta (str ''Why did the chicken cross the road?'' @ [0x000A] @
                               str ''To get to the other side.''),
           title = [0xD83D, 0xDE48]\<rparr>])"
  by (simp add: chicken_jokes_def chicken_def getRandomJoke_def runJokeCommand_Inr
      trim_chicken glyph_def)

theorem chicken_end_to_end_witness:
  "(0::nat) < length chicken_jokes \<and>
   runJokeCommand (\<lambda>s. s) (getRandomJoke chicken_jokes 0) [] =
     Inr [\<lparr>message = str ''Why did the chicken cross the road?'' @ [0x000A] @
                               str ''To get to the other side.'',
           title = [0xD83D, 0xDE48]\<rparr>]"
proof -
  have h: "(0::nat) < length chicken_jokes"
    by (simp add: chicken_jokes_def)
  show ?thesis
    using h chicken_end_to_end [OF h, of "\<lambda>s. s" "[]"]
    unfolding append_Nil by blast
qed

text \<open>
  C9. The command always succeeds: for every entry made of a setup and a punchline, and
  whatever was written before, \<open>runJokeCommand\<close> returns normally (\<open>Inr\<close>), never the
  thrown error.
\<close>

theorem runJokeCommand_succeeds:
  "length joke = 2 \<Longrightarrow> \<exists>out'. runJokeCommand magenta joke out = Inr out'"
proof -
  assume "length joke = 2"
  then obtain s p where "joke = [s, p]"
    by (cases joke; cases "tl joke") auto
  then show ?thesis
    by (simp add: runJokeCommand_Inr)
qed

theorem runJokeCommand_succeeds_witness:
  "length chicken = 2 \<and> (\<exists>out'. runJokeCommand (\<lambda>s. s) chicken [] = Inr out')"
proof -
  have h: "length chicken = 2"
    by (simp add: chicken_def)
  show ?thesis
    using h runJokeCommand_succeeds [OF h] by simp
qed

text \<open>
  C10. The command trims both parts before printing: for every returned entry, the text
  handed to the terminal is the trimmed setup, a line feed and the trimmed punchline,
  where the trimmed string is the raw one without its leading and trailing white space.
\<close>

theorem runJokeCommand_trims:
  "runJokeCommand magenta (setup # punchline # rest) out =
     Inr (out @ [\<lparr>message = magenta (trim setup @ [0x000A] @ trim punchline), title = glyph\<rparr>]) \<and>
   stripped setup (trim setup) \<and> stripped punchline (trim punchline)"
  by (simp add: runJokeCommand_Inr stripped_trim)

theorem runJokeCommand_trims_witness:
  "runJokeCommand (\<lambda>s. s) [str '' a b  '', 0x0009 # str ''c'' @ [0x000A, 0x3000]] [] =
     Inr [\<lparr>message = str ''a b'' @ [0x000A] @ str ''c'', title = glyph\<rparr>] \<and>
   str '' a b  '' \<noteq> str ''a b''"
  using runJokeCommand_trims
    [of "\<lambda>s. s" "str '' a b  ''" "0x0009 # str ''c'' @ [0x000A, 0x3000]" "[]" "[]"]
  by (simp add: trim_def trimStart_def trimEnd_def str_def isWhiteSpace_def)

end
